theory Spec2Isabelle
  imports Main "HOL-Library.Word"
begin

unbundle bit_operations_syntax

section \<open>Signal handler set-up of the Mercury runtime (runtime/mercury_signal.c)\<close>

text \<open>
  The module installs and queries signal handlers through one of two facilities of the
  platform, chosen by the preprocessor: \<^verbatim>\<open>sigaction\<close> (when \<^verbatim>\<open>MR_HAVE_SIGACTION\<close> is
  defined) or ISO C \<^verbatim>\<open>signal\<close>. The embedding keeps both branches of every
  \<^verbatim>\<open>#ifdef\<close> in one definition and takes the configuration as a record, so each
  definition below reads like the C function it stands for.
\<close>

subsection \<open>Data\<close>

text \<open>
  A handler is a code address (\<^verbatim>\<open>MR_Code *\<close>); the module never looks behind it, so an
  address is a natural number and \<^verbatim>\<open>NULL\<close> is 0.
\<close>

type_synonym MR_Code_ptr = nat

definition NULL :: MR_Code_ptr where
  "NULL = 0"

text \<open>
  \<^verbatim>\<open>struct sigaction\<close>, with the three members the module writes: the flags (a C
  \<^verbatim>\<open>int\<close>, used as a bit set), the set of signals blocked while the handler runs, and
  the handler member. The module names the handler member through the macro
  \<^verbatim>\<open>MR_SIGACTION_FIELD\<close>, which \<^verbatim>\<open>mercury_signal.h\<close> defines as one of the two
  handler members of the structure; the record has one field under the macro's name.
\<close>

record struct_sigaction =
  sa_flags :: "32 word"
  sa_mask :: "int set"
  MR_SIGACTION_FIELD :: MR_Code_ptr

text \<open>
  Modelled from the spec: the type \<^verbatim>\<open>MR_signal_action\<close> is declared in
  \<^verbatim>\<open>mercury_signal.h\<close>, which lies outside the file verified here. The action descriptor
  bundles a handler reference, a flag set and a blocked-signal mask on the structured
  facility, and is just the handler reference on the primitive one; lines 81 to 103 use
  it so (\<^verbatim>\<open>act.sa_flags\<close>, \<^verbatim>\<open>act.sa_mask\<close> and \<^verbatim>\<open>act.MR_SIGACTION_FIELD\<close> with
  \<^verbatim>\<open>MR_HAVE_SIGACTION\<close>, \<^verbatim>\<open>act = handler\<close> without).
\<close>

datatype MR_signal_action = Sigaction struct_sigaction | Handler MR_Code_ptr

text \<open>
  The handler reference of a descriptor. In the C program the shape of a descriptor is
  fixed by the configuration; the function is total so that the model of \<^verbatim>\<open>signal\<close>
  below is.
\<close>

fun handler_ref :: "MR_signal_action \<Rightarrow> MR_Code_ptr" where
  "handler_ref (Sigaction a) = MR_SIGACTION_FIELD a"
| "handler_ref (Handler h) = h"

text \<open>
  What the build configuration and the system headers fix: the two feature macros, the
  flag constants of \<^verbatim>\<open><signal.h>\<close> (absent on some platforms), the error sentinel of
  \<^verbatim>\<open>signal\<close>, the range of signal numbers, the two signals that cannot be caught, the
  error number the facility reports, and whether \<^verbatim>\<open>sigemptyset\<close> fails (with which
  error number).
\<close>

record platform =
  MR_HAVE_SIGACTION :: bool
  MR_HAVE_SIGCONTEXT_STRUCT :: bool
  header_SA_RESTART :: "32 word option"
  header_SA_SIGINFO :: "32 word option"
  SIG_ERR :: MR_Code_ptr
  NSIG :: int
  SIGKILL :: int
  SIGSTOP :: int
  EINVAL :: int
  sigemptyset_errno :: "int option"

text \<open>
  Lines 48 to 54: a flag the headers do not define is defined as 0.
\<close>

definition SA_RESTART :: "platform \<Rightarrow> 32 word" where
  "SA_RESTART P = (case header_SA_RESTART P of None \<Rightarrow> 0 | Some v \<Rightarrow> v)"

definition SA_SIGINFO :: "platform \<Rightarrow> 32 word" where
  "SA_SIGINFO P = (case header_SA_SIGINFO P of None \<Rightarrow> 0 | Some v \<Rightarrow> v)"

text \<open>
  A line on the standard error stream: the message given to \<^verbatim>\<open>MR_perror\<close> and the
  error number whose description follows it.
\<close>

datatype diagnostic = Diagnostic string int

text \<open>
  The state of the process that the module reads and writes: the disposition of every
  signal, \<^verbatim>\<open>errno\<close>, and what has been printed on the standard error stream.
\<close>

record os_state =
  dispositions :: "int \<Rightarrow> MR_signal_action"
  errno :: int
  stderr :: "diagnostic list"

text \<open>
  A call either returns a value in a new state, or ends the process through
  \<^verbatim>\<open>exit\<close> with a status.
\<close>

datatype 'a result = Returned 'a os_state | Exit int os_state

subsection \<open>The platform's calls\<close>

text \<open>
  The three library calls the module uses, after POSIX and ISO C. A signal number is
  valid from 1 below \<^verbatim>\<open>NSIG\<close>; the action of \<^verbatim>\<open>SIGKILL\<close> and \<^verbatim>\<open>SIGSTOP\<close> cannot be
  changed. A failing call sets \<^verbatim>\<open>errno\<close>.

  \<^verbatim>\<open>sigemptyset(set)\<close> gives the return code and the set.
\<close>

definition sigemptyset :: "platform \<Rightarrow> int set \<Rightarrow> os_state \<Rightarrow> int \<times> int set \<times> os_state" where
  "sigemptyset P s st =
     (case sigemptyset_errno P of
        None \<Rightarrow> (0, {}, st)
      | Some e \<Rightarrow> (-1, s, st\<lparr>errno := e\<rparr>))"

definition valid_signal :: "platform \<Rightarrow> int \<Rightarrow> bool" where
  "valid_signal P sig \<longleftrightarrow> 0 < sig \<and> sig < NSIG P"

text \<open>
  \<^verbatim>\<open>sigaction(sig, act, oact)\<close>: \<open>act\<close> is \<open>None\<close> for a null pointer. The second
  component of the result is what the call stores through \<open>oact\<close> on success.
\<close>

definition sigaction ::
  "platform \<Rightarrow> int \<Rightarrow> MR_signal_action option \<Rightarrow> os_state \<Rightarrow> int \<times> MR_signal_action \<times> os_state" where
  "sigaction P sig act st =
     (if \<not> valid_signal P sig then (-1, dispositions st sig, st\<lparr>errno := EINVAL P\<rparr>)
      else case act of
        None \<Rightarrow> (0, dispositions st sig, st)
      | Some a \<Rightarrow>
          if sig = SIGKILL P \<or> sig = SIGSTOP P
          then (-1, dispositions st sig, st\<lparr>errno := EINVAL P\<rparr>)
          else (0, dispositions st sig, st\<lparr>dispositions := (dispositions st)(sig := a)\<rparr>))"

text \<open>
  \<^verbatim>\<open>signal(sig, func)\<close> installs \<open>func\<close> and returns the handler installed before, or
  \<^verbatim>\<open>SIG_ERR\<close>. It has no form that only queries.
\<close>

definition signal :: "platform \<Rightarrow> int \<Rightarrow> MR_Code_ptr \<Rightarrow> os_state \<Rightarrow> MR_Code_ptr \<times> os_state" where
  "signal P sig func st =
     (if \<not> valid_signal P sig \<or> sig = SIGKILL P \<or> sig = SIGSTOP P
      then (SIG_ERR P, st\<lparr>errno := EINVAL P\<rparr>)
      else (handler_ref (dispositions st sig),
            st\<lparr>dispositions := (dispositions st)(sig := Handler func)\<rparr>))"

text \<open>
  Modelled from the spec: \<^verbatim>\<open>MR_perror\<close> is declared in \<^verbatim>\<open>mercury_imp.h\<close> and defined
  elsewhere in the runtime. It prints a diagnostic built from the string it is given and
  the description of the platform's last error, and returns.
\<close>

definition MR_perror :: "string \<Rightarrow> os_state \<Rightarrow> os_state" where
  "MR_perror s st = st\<lparr>stderr := stderr st @ [Diagnostic s (errno st)]\<rparr>"

subsection \<open>The module's functions\<close>

text \<open>
  \<^verbatim>\<open>MR_set_signal_action\<close>, lines 129 to 145. On the primitive facility the descriptor
  is the handler.
\<close>

definition MR_set_signal_action ::
  "platform \<Rightarrow> int \<Rightarrow> MR_signal_action \<Rightarrow> string \<Rightarrow> os_state \<Rightarrow> unit result" where
  "MR_set_signal_action P sig act error_message st =
     (if MR_HAVE_SIGACTION P then
        (case sigaction P sig (Some act) st of
           (rc, oact, st') \<Rightarrow>
             if rc \<noteq> 0 then Exit 1 (MR_perror error_message st')
             else Returned () st')
      else
        (case signal P sig (handler_ref act) st of
           (r, st') \<Rightarrow>
             if r = SIG_ERR P then Exit 1 (MR_perror error_message st')
             else Returned () st'))"

text \<open>
  \<^verbatim>\<open>MR_get_signal_action\<close>, lines 110 to 127. The value returned is what the C function
  leaves in \<^verbatim>\<open>*act\<close>.
\<close>

definition MR_get_signal_action ::
  "platform \<Rightarrow> int \<Rightarrow> string \<Rightarrow> os_state \<Rightarrow> MR_signal_action result" where
  "MR_get_signal_action P sig error_message st =
     (if MR_HAVE_SIGACTION P then
        (case sigaction P sig None st of
           (rc, act, st') \<Rightarrow>
             if rc \<noteq> 0 then Exit 1 (MR_perror error_message st')
             else Returned act st')
      else
        (case signal P sig NULL st of
           (act, st') \<Rightarrow>
             if act = SIG_ERR P then Exit 1 (MR_perror error_message st')
             else Returned (Handler act) st'))"

text \<open>
  \<^verbatim>\<open>MR_do_setup_signal\<close>, lines 73 to 108, in two parts. The first part, lines 77 to 105,
  fills the local variable \<^verbatim>\<open>act\<close>. The local is not initialised in C, so its value on
  entry is the argument \<open>act\<close>, about which nothing is known.
\<close>

definition MR_do_setup_signal_act ::
  "platform \<Rightarrow> MR_Code_ptr \<Rightarrow> bool \<Rightarrow> bool \<Rightarrow> struct_sigaction \<Rightarrow> os_state
     \<Rightarrow> MR_signal_action result" where
  "MR_do_setup_signal_act P handler need_info restart act st =
     (if MR_HAVE_SIGACTION P then
        (let act1 = act\<lparr>sa_flags := (if restart then SA_RESTART P else 0)\<rparr>;
             act2 = (if need_info then
                       (if \<not> MR_HAVE_SIGCONTEXT_STRUCT P
                        then act1\<lparr>sa_flags := sa_flags act1 OR SA_SIGINFO P\<rparr>
                        else act1)
                     else act1)
         in case sigemptyset P (sa_mask act2) st of
           (rc, cleared, st') \<Rightarrow>
             if rc \<noteq> 0 then Exit 1 (MR_perror ''cannot set clear signal mask'' st')
             else Returned
                    (Sigaction (act2\<lparr>sa_mask := cleared, MR_SIGACTION_FIELD := handler\<rparr>))
                    (st'\<lparr>errno := 0\<rparr>))
      else Returned (Handler handler) st)"

text \<open>
  The second part is line 107: the descriptor goes to \<^verbatim>\<open>MR_set_signal_action\<close>.
\<close>

definition MR_do_setup_signal ::
  "platform \<Rightarrow> int \<Rightarrow> MR_Code_ptr \<Rightarrow> bool \<Rightarrow> bool \<Rightarrow> string \<Rightarrow> struct_sigaction \<Rightarrow> os_state
     \<Rightarrow> unit result" where
  "MR_do_setup_signal P sig handler need_info restart error_message act st =
     (case MR_do_setup_signal_act P handler need_info restart act st of
        Exit c st' \<Rightarrow> Exit c st'
      | Returned a st' \<Rightarrow> MR_set_signal_action P sig a error_message st')"

text \<open>\<^verbatim>\<open>MR_setup_signal\<close>, lines 59 to 64.\<close>

definition MR_setup_signal ::
  "platform \<Rightarrow> int \<Rightarrow> MR_Code_ptr \<Rightarrow> bool \<Rightarrow> string \<Rightarrow> struct_sigaction \<Rightarrow> os_state
     \<Rightarrow> unit result" where
  "MR_setup_signal P sig handler need_info error_message act st =
     MR_do_setup_signal P sig handler need_info True error_message act st"

text \<open>\<^verbatim>\<open>MR_setup_signal_no_restart\<close>, lines 66 to 71.\<close>

definition MR_setup_signal_no_restart ::
  "platform \<Rightarrow> int \<Rightarrow> MR_Code_ptr \<Rightarrow> bool \<Rightarrow> string \<Rightarrow> struct_sigaction \<Rightarrow> os_state
     \<Rightarrow> unit result" where
  "MR_setup_signal_no_restart P sig handler need_info error_message act st =
     MR_do_setup_signal P sig handler need_info False error_message act st"

subsection \<open>Platforms and states to compute on\<close>

text \<open>
  A platform with \<^verbatim>\<open>sigaction\<close> and both flags (the constants of Linux), the same
  platform configured for the legacy \<^verbatim>\<open>sigcontext\<close> handlers, one on which
  \<^verbatim>\<open>sigemptyset\<close> fails, and one with \<^verbatim>\<open>signal\<close> only.
\<close>

definition structured_platform :: platform where
  "structured_platform =
     \<lparr>MR_HAVE_SIGACTION = True, MR_HAVE_SIGCONTEXT_STRUCT = False,
      header_SA_RESTART = Some 0x10000000, header_SA_SIGINFO = Some 4,
      SIG_ERR = 18446744073709551615, NSIG = 65, SIGKILL = 9, SIGSTOP = 19,
      EINVAL = 22, sigemptyset_errno = None\<rparr>"

definition legacy_platform :: platform where
  "legacy_platform = structured_platform\<lparr>MR_HAVE_SIGCONTEXT_STRUCT := True\<rparr>"

definition faulty_platform :: platform where
  "faulty_platform = structured_platform\<lparr>sigemptyset_errno := Some 22\<rparr>"

definition primitive_platform :: platform where
  "primitive_platform =
     \<lparr>MR_HAVE_SIGACTION = False, MR_HAVE_SIGCONTEXT_STRUCT = False,
      header_SA_RESTART = None, header_SA_SIGINFO = None,
      SIG_ERR = 18446744073709551615, NSIG = 65, SIGKILL = 9, SIGSTOP = 19,
      EINVAL = 22, sigemptyset_errno = None\<rparr>"

text \<open>
  The state of a process at start: every signal has the default action (handler
  \<^verbatim>\<open>SIG_DFL\<close>, the null address, no flags, nothing blocked).
\<close>

definition startup :: "platform \<Rightarrow> os_state" where
  "startup P =
     \<lparr>dispositions =
        (\<lambda>sig. if MR_HAVE_SIGACTION P
               then Sigaction \<lparr>sa_flags = 0, sa_mask = {}, MR_SIGACTION_FIELD = NULL\<rparr>
               else Handler NULL),
      errno = 0, stderr = []\<rparr>"

text \<open>Some contents of an uninitialised \<^verbatim>\<open>struct sigaction\<close>.\<close>

definition junk :: struct_sigaction where
  "junk = \<lparr>sa_flags = 0xDEADBEEF, sa_mask = {3, 14}, MR_SIGACTION_FIELD = 48879\<rparr>"

subsection \<open>Notions used in the statements\<close>

text \<open>
  The flag constants of a platform are distinct bits of the flag word, so no bit belongs
  to both.
\<close>

definition flags_disjoint :: "platform \<Rightarrow> bool" where
  "flags_disjoint P \<longleftrightarrow> SA_RESTART P AND SA_SIGINFO P = 0"

text \<open>A descriptor asks for extended context when its flags hold \<^verbatim>\<open>SA_SIGINFO\<close>.\<close>

definition siginfo_requested :: "platform \<Rightarrow> MR_signal_action \<Rightarrow> bool" where
  "siginfo_requested P a =
     (case a of Sigaction sa \<Rightarrow> sa_flags sa AND SA_SIGINFO P \<noteq> 0 | Handler h \<Rightarrow> False)"

text \<open>The state a call leaves behind, whether it returns or exits.\<close>

fun state_of :: "'a result \<Rightarrow> os_state" where
  "state_of (Returned x st) = st"
| "state_of (Exit c st) = st"

section \<open>Properties\<close>

subsection \<open>Evaluation rules and the descriptor that is built\<close>

lemmas os_defs = sigemptyset_def sigaction_def signal_def valid_signal_def MR_perror_def
lemmas mod_defs = MR_set_signal_action_def MR_get_signal_action_def MR_do_setup_signal_act_def
  MR_do_setup_signal_def MR_setup_signal_def MR_setup_signal_no_restart_def
lemmas plat_defs = structured_platform_def legacy_platform_def faulty_platform_def primitive_platform_def
  startup_def junk_def SA_RESTART_def SA_SIGINFO_def NULL_def

lemma or_and_absorb: "(x OR y) AND x = (x :: 32 word)"
  by (auto simp add: bit_eq_iff bit_simps)

lemma built_flags_restart:
  fixes R I :: "32 word"
  shows "(r \<longrightarrow> ((if r then R else 0) OR (if c then I else 0)) AND R = R)
       \<and> (r \<and> R \<noteq> 0 \<longrightarrow> ((if r then R else 0) OR (if c then I else 0)) AND R \<noteq> 0)
       \<and> (\<not> r \<and> R AND I = 0 \<longrightarrow> ((if r then R else 0) OR (if c then I else 0)) AND R = 0)"
proof -
  have swap: "I AND R = R AND I"
    by (simp add: and.commute)
  show ?thesis
    by (auto simp add: or_and_absorb swap)
qed

lemma act_structured:
  "MR_HAVE_SIGACTION P \<Longrightarrow> sigemptyset_errno P = None \<Longrightarrow>
   MR_do_setup_signal_act P h ni r act st =
     Returned (Sigaction \<lparr>sa_flags = (if r then SA_RESTART P else 0)
                               OR (if ni \<and> \<not> MR_HAVE_SIGCONTEXT_STRUCT P then SA_SIGINFO P else 0),
                          sa_mask = {}, MR_SIGACTION_FIELD = h\<rparr>)
              (st\<lparr>errno := 0\<rparr>)"
  by (simp add: MR_do_setup_signal_act_def sigemptyset_def Let_def)

lemma act_fault:
  "MR_HAVE_SIGACTION P \<Longrightarrow> sigemptyset_errno P = Some e \<Longrightarrow>
   MR_do_setup_signal_act P h ni r act st =
     Exit 1 (st\<lparr>errno := e, stderr := stderr st @ [Diagnostic ''cannot set clear signal mask'' e]\<rparr>)"
  by (simp add: MR_do_setup_signal_act_def sigemptyset_def MR_perror_def Let_def)

lemma act_primitive:
  "\<not> MR_HAVE_SIGACTION P \<Longrightarrow> MR_do_setup_signal_act P h ni r act st = Returned (Handler h) st"
  by (simp add: MR_do_setup_signal_act_def)

lemma act_returned_iff:
  "(\<exists>a st'. MR_do_setup_signal_act P h ni r act st = Returned a st')
     \<longleftrightarrow> (MR_HAVE_SIGACTION P \<longrightarrow> sigemptyset_errno P = None)"
  by (cases "MR_HAVE_SIGACTION P"; cases "sigemptyset_errno P")
     (simp_all add: act_structured act_fault act_primitive)

lemma set_structured:
  "MR_HAVE_SIGACTION P \<Longrightarrow> MR_set_signal_action P sig a e st =
     (if valid_signal P sig \<and> sig \<noteq> SIGKILL P \<and> sig \<noteq> SIGSTOP P
      then Returned () (st\<lparr>dispositions := (dispositions st)(sig := a)\<rparr>)
      else Exit 1 (st\<lparr>errno := EINVAL P, stderr := stderr st @ [Diagnostic e (EINVAL P)]\<rparr>))"
  by (simp add: MR_set_signal_action_def sigaction_def MR_perror_def)

lemma set_primitive:
  "\<not> MR_HAVE_SIGACTION P \<Longrightarrow> MR_set_signal_action P sig a e st =
     (if valid_signal P sig \<and> sig \<noteq> SIGKILL P \<and> sig \<noteq> SIGSTOP P
      then (if handler_ref (dispositions st sig) = SIG_ERR P
            then Exit 1 (st\<lparr>dispositions := (dispositions st)(sig := Handler (handler_ref a)),
                           stderr := stderr st @ [Diagnostic e (errno st)]\<rparr>)
            else Returned () (st\<lparr>dispositions := (dispositions st)(sig := Handler (handler_ref a))\<rparr>))
      else Exit 1 (st\<lparr>errno := EINVAL P, stderr := stderr st @ [Diagnostic e (EINVAL P)]\<rparr>))"
  by (simp add: MR_set_signal_action_def signal_def MR_perror_def)

lemma get_structured:
  "MR_HAVE_SIGACTION P \<Longrightarrow> MR_get_signal_action P sig e st =
     (if valid_signal P sig then Returned (dispositions st sig) st
      else Exit 1 (st\<lparr>errno := EINVAL P, stderr := stderr st @ [Diagnostic e (EINVAL P)]\<rparr>))"
  by (simp add: MR_get_signal_action_def sigaction_def MR_perror_def)

lemma get_primitive:
  "\<not> MR_HAVE_SIGACTION P \<Longrightarrow> MR_get_signal_action P sig e st =
     (if valid_signal P sig \<and> sig \<noteq> SIGKILL P \<and> sig \<noteq> SIGSTOP P
      then (if handler_ref (dispositions st sig) = SIG_ERR P
            then Exit 1 (st\<lparr>dispositions := (dispositions st)(sig := Handler NULL),
                           stderr := stderr st @ [Diagnostic e (errno st)]\<rparr>)
            else Returned (Handler (handler_ref (dispositions st sig)))
                          (st\<lparr>dispositions := (dispositions st)(sig := Handler NULL)\<rparr>))
      else Exit 1 (st\<lparr>errno := EINVAL P, stderr := stderr st @ [Diagnostic e (EINVAL P)]\<rparr>))"
  by (simp add: MR_get_signal_action_def signal_def MR_perror_def)

lemma do_setup_structured:
  "MR_HAVE_SIGACTION P \<Longrightarrow> sigemptyset_errno P = None \<Longrightarrow>
   MR_do_setup_signal P sig h ni r e act st =
     MR_set_signal_action P sig
       (Sigaction \<lparr>sa_flags = (if r then SA_RESTART P else 0)
                               OR (if ni \<and> \<not> MR_HAVE_SIGCONTEXT_STRUCT P then SA_SIGINFO P else 0),
                   sa_mask = {}, MR_SIGACTION_FIELD = h\<rparr>) e (st\<lparr>errno := 0\<rparr>)"
  by (simp add: MR_do_setup_signal_def act_structured)

lemma do_setup_fault:
  "MR_HAVE_SIGACTION P \<Longrightarrow> sigemptyset_errno P = Some x \<Longrightarrow>
   MR_do_setup_signal P sig h ni r e act st =
     Exit 1 (st\<lparr>errno := x, stderr := stderr st @ [Diagnostic ''cannot set clear signal mask'' x]\<rparr>)"
  by (simp add: MR_do_setup_signal_def act_fault)

lemma do_setup_primitive:
  "\<not> MR_HAVE_SIGACTION P \<Longrightarrow>
   MR_do_setup_signal P sig h ni r e act st = MR_set_signal_action P sig (Handler h) e st"
  by (simp add: MR_do_setup_signal_def act_primitive)

lemma do_setup_returned:
  assumes "MR_do_setup_signal P sig h ni r e act st = Returned u st1"
  shows "valid_signal P sig \<and> sig \<noteq> SIGKILL P \<and> sig \<noteq> SIGSTOP P
       \<and> (MR_HAVE_SIGACTION P \<longrightarrow> sigemptyset_errno P = None)
       \<and> handler_ref (dispositions st1 sig) = h
       \<and> stderr st1 = stderr st
       \<and> dispositions st1 = (dispositions st)(sig := dispositions st1 sig)
       \<and> dispositions st1 sig =
           (if MR_HAVE_SIGACTION P
            then Sigaction \<lparr>sa_flags = (if r then SA_RESTART P else 0)
                               OR (if ni \<and> \<not> MR_HAVE_SIGCONTEXT_STRUCT P then SA_SIGINFO P else 0),
                            sa_mask = {}, MR_SIGACTION_FIELD = h\<rparr>
            else Handler h)"
proof (cases "MR_HAVE_SIGACTION P")
  case False
  with assms show ?thesis
    by (auto simp add: do_setup_primitive set_primitive split: if_splits)
next
  case True
  show ?thesis
  proof (cases "sigemptyset_errno P")
    case None
    with assms True show ?thesis
      by (auto simp add: do_setup_structured set_structured split: if_splits)
  next
    case (Some x)
    with assms True show ?thesis by (simp add: do_setup_fault)
  qed
qed

lemma get_exit:
  assumes "MR_get_signal_action P sig e st = Exit c st'"
  shows "c = 1 \<and> stderr st' = stderr st @ [Diagnostic e (errno st')]"
  using assms
  by (cases "MR_HAVE_SIGACTION P")
     (auto simp add: get_structured get_primitive split: if_splits)

lemma set_exit:
  assumes "MR_set_signal_action P sig a e st = Exit c st'"
  shows "c = 1 \<and> stderr st' = stderr st @ [Diagnostic e (errno st')]"
  using assms
  by (cases "MR_HAVE_SIGACTION P")
     (auto simp add: set_structured set_primitive split: if_splits)

lemma do_setup_exit:
  assumes "MR_do_setup_signal P sig h ni r e act st = Exit c st'"
  shows "c = 1 \<and> stderr st' = stderr st @
           [Diagnostic (if MR_HAVE_SIGACTION P \<and> sigemptyset_errno P \<noteq> None
                        then ''cannot set clear signal mask'' else e) (errno st')]"
proof (cases "MR_HAVE_SIGACTION P")
  case False
  with assms set_exit [of P sig "Handler h" e st c st'] show ?thesis
    by (simp add: do_setup_primitive)
next
  case True
  show ?thesis
  proof (cases "sigemptyset_errno P")
    case None
    with assms True show ?thesis
      by (auto simp add: do_setup_structured set_structured split: if_splits)
  next
    case (Some x)
    with assms True show ?thesis by (auto simp add: do_setup_fault)
  qed
qed



lemma get_structured_only_queries:
  assumes "MR_HAVE_SIGACTION P" and "MR_get_signal_action P s e st = Returned a st'"
  shows "a = dispositions st s \<and> st' = st"
  using assms by (auto simp add: get_structured split: if_splits)

lemma get_primitive_installs_null:
  assumes "\<not> MR_HAVE_SIGACTION P" and "MR_get_signal_action P s e st = Returned a st'"
  shows "a = Handler (handler_ref (dispositions st s))
       \<and> dispositions st' = (dispositions st)(s := Handler NULL)"
  using assms by (auto simp add: get_primitive split: if_splits)

subsection \<open>The claims\<close>

text \<open>
  C1: on a platform configured with \<^verbatim>\<open>MR_HAVE_SIGCONTEXT_STRUCT\<close>, a call of
  \<^verbatim>\<open>MR_do_setup_signal\<close> with \<open>need_info\<close> true builds a descriptor whose flags are the
  restart flag or nothing: \<^verbatim>\<open>SA_SIGINFO\<close> is never added, whatever the other arguments
  and the state are, and the bit is clear in the descriptor. Across calls: if no
  disposition of the process asks for extended context, none does after one more call,
  so none does after any number of them.
\<close>
theorem legacy_context_excludes_siginfo:
  assumes "MR_HAVE_SIGACTION P" and "MR_HAVE_SIGCONTEXT_STRUCT P"
  shows "(\<forall>a st'. MR_do_setup_signal_act P h True r act st = Returned a st' \<longrightarrow>
            (\<exists>sa. a = Sigaction sa \<and> sa_flags sa = (if r then SA_RESTART P else 0)
                  \<and> (flags_disjoint P \<longrightarrow> \<not> siginfo_requested P a)))
       \<and> (\<forall>st'. flags_disjoint P
              \<and> (\<forall>s. \<not> siginfo_requested P (dispositions st s))
              \<and> MR_do_setup_signal P sig h ni r e act st = Returned () st'
            \<longrightarrow> (\<forall>s. \<not> siginfo_requested P (dispositions st' s)))"
proof (cases "sigemptyset_errno P")
  case None
  have built: "MR_do_setup_signal_act P h n r act st =
      Returned (Sigaction \<lparr>sa_flags = (if r then SA_RESTART P else 0), sa_mask = {},
                           MR_SIGACTION_FIELD = h\<rparr>) (st\<lparr>errno := 0\<rparr>)" for n
    using assms None by (simp add: act_structured)
  have clear: "flags_disjoint P \<Longrightarrow>
      \<not> siginfo_requested P (Sigaction \<lparr>sa_flags = (if r then SA_RESTART P else 0), sa_mask = {},
                           MR_SIGACTION_FIELD = h\<rparr>)"
    by (simp add: siginfo_requested_def flags_disjoint_def)
  show ?thesis
    using assms clear
    by (auto simp add: built MR_do_setup_signal_def MR_set_signal_action_def sigaction_def
             split: if_splits)
next
  case (Some x)
  then show ?thesis
    using assms by (simp add: act_fault MR_do_setup_signal_def)
qed

theorem legacy_context_excludes_siginfo_witness:
  "MR_HAVE_SIGACTION legacy_platform \<and> MR_HAVE_SIGCONTEXT_STRUCT legacy_platform
   \<and> flags_disjoint legacy_platform
   \<and> MR_do_setup_signal_act legacy_platform 4096 True True junk (startup legacy_platform)
       = Returned (Sigaction \<lparr>sa_flags = 0x10000000, sa_mask = {}, MR_SIGACTION_FIELD = 4096\<rparr>)
                  (startup legacy_platform)
   \<and> \<not> siginfo_requested legacy_platform
         (Sigaction \<lparr>sa_flags = 0x10000000, sa_mask = {}, MR_SIGACTION_FIELD = 4096\<rparr>)
   \<and> (\<forall>s. \<not> siginfo_requested legacy_platform (dispositions (startup legacy_platform) s))
   \<and> MR_do_setup_signal legacy_platform 11 4096 True True ''segv'' junk (startup legacy_platform)
       = Returned () ((startup legacy_platform)\<lparr>dispositions := (dispositions (startup legacy_platform))
          (11 := Sigaction \<lparr>sa_flags = 0x10000000, sa_mask = {}, MR_SIGACTION_FIELD = 4096\<rparr>)\<rparr>)
   \<and> (\<forall>s. \<not> siginfo_requested legacy_platform
         (dispositions ((startup legacy_platform)\<lparr>dispositions := (dispositions (startup legacy_platform))
          (11 := Sigaction \<lparr>sa_flags = 0x10000000, sa_mask = {}, MR_SIGACTION_FIELD = 4096\<rparr>)\<rparr>) s))"
  using legacy_context_excludes_siginfo [of legacy_platform 4096 True junk "startup legacy_platform"
     11 True "''segv''"]
  by (simp add: mod_defs os_defs plat_defs flags_disjoint_def siginfo_requested_def)

text \<open>
  C2: \<^verbatim>\<open>MR_get_signal_action\<close> is to return the installed descriptor and leave every
  disposition as it is. With \<^verbatim>\<open>sigaction\<close> it does (\<open>get_structured_only_queries\<close>).
  Without it the function calls \<^verbatim>\<open>signal(sig, NULL)\<close>, which installs the null handler
  (\<open>get_primitive_installs_null\<close>). Evaluated on the platform with \<^verbatim>\<open>signal\<close> only:
  after a handler at address 4096 is set up for signal 2, the query returns that handler,
  the disposition of signal 2 is the null handler afterwards, and a second query returns
  the null handler.
\<close>
theorem get_on_primitive_facility_resets_disposition:
  "MR_setup_signal primitive_platform 2 4096 False ''int handler'' junk (startup primitive_platform)
     = Returned () ((startup primitive_platform)\<lparr>dispositions :=
           (dispositions (startup primitive_platform))(2 := Handler 4096)\<rparr>)
   \<and> MR_get_signal_action primitive_platform 2 ''query''
        ((startup primitive_platform)\<lparr>dispositions :=
           (dispositions (startup primitive_platform))(2 := Handler 4096)\<rparr>)
     = Returned (Handler 4096)
         ((startup primitive_platform)\<lparr>dispositions :=
           (dispositions (startup primitive_platform))(2 := Handler NULL)\<rparr>)
   \<and> dispositions ((startup primitive_platform)\<lparr>dispositions :=
           (dispositions (startup primitive_platform))(2 := Handler 4096)\<rparr>) 2 = Handler 4096
   \<and> dispositions ((startup primitive_platform)\<lparr>dispositions :=
           (dispositions (startup primitive_platform))(2 := Handler NULL)\<rparr>) 2 = Handler NULL
   \<and> MR_get_signal_action primitive_platform 2 ''query''
        ((startup primitive_platform)\<lparr>dispositions :=
           (dispositions (startup primitive_platform))(2 := Handler NULL)\<rparr>)
     = Returned (Handler NULL)
         ((startup primitive_platform)\<lparr>dispositions :=
           (dispositions (startup primitive_platform))(2 := Handler NULL)\<rparr>)"
  by (simp add: mod_defs os_defs plat_defs)

text \<open>
  C3: after \<^verbatim>\<open>MR_setup_signal\<close> with \<open>need_info\<close> false has returned for signal \<open>s\<close>
  and handler \<open>h\<close>, every descriptor that \<^verbatim>\<open>MR_get_signal_action\<close> returns for \<open>s\<close>
  has the handler reference \<open>h\<close>; and the query does return, with \<^verbatim>\<open>sigaction\<close>
  always and with \<^verbatim>\<open>signal\<close> when \<open>h\<close> is not the error sentinel \<^verbatim>\<open>SIG_ERR\<close>.
\<close>
theorem get_after_setup_returns_handler:
  assumes "MR_setup_signal P s h False e act st = Returned () st1"
  shows "(\<forall>a st2. MR_get_signal_action P s e' st1 = Returned a st2 \<longrightarrow> handler_ref a = h)
       \<and> (MR_HAVE_SIGACTION P \<or> h \<noteq> SIG_ERR P \<longrightarrow>
            (\<exists>a st2. MR_get_signal_action P s e' st1 = Returned a st2))"
proof -
  from assms have inst: "MR_do_setup_signal P s h False True e act st = Returned () st1"
    by (simp add: MR_setup_signal_def)
  note facts = do_setup_returned [OF inst]
  show ?thesis
  proof (cases "MR_HAVE_SIGACTION P")
    case True
    with facts show ?thesis by (simp add: get_structured)
  next
    case False
    with facts show ?thesis by (simp add: get_primitive)
  qed
qed

theorem get_after_setup_returns_handler_witness:
  "MR_setup_signal structured_platform 15 4096 False ''term handler'' junk (startup structured_platform)
     = Returned () ((startup structured_platform)\<lparr>dispositions :=
           (dispositions (startup structured_platform))
           (15 := Sigaction \<lparr>sa_flags = 0x10000000, sa_mask = {}, MR_SIGACTION_FIELD = 4096\<rparr>)\<rparr>)
   \<and> MR_get_signal_action structured_platform 15 ''query''
       ((startup structured_platform)\<lparr>dispositions :=
           (dispositions (startup structured_platform))
           (15 := Sigaction \<lparr>sa_flags = 0x10000000, sa_mask = {}, MR_SIGACTION_FIELD = 4096\<rparr>)\<rparr>)
     = Returned (Sigaction \<lparr>sa_flags = 0x10000000, sa_mask = {}, MR_SIGACTION_FIELD = 4096\<rparr>)
       ((startup structured_platform)\<lparr>dispositions :=
           (dispositions (startup structured_platform))
           (15 := Sigaction \<lparr>sa_flags = 0x10000000, sa_mask = {}, MR_SIGACTION_FIELD = 4096\<rparr>)\<rparr>)
   \<and> handler_ref (Sigaction \<lparr>sa_flags = 0x10000000, sa_mask = {}, MR_SIGACTION_FIELD = 4096\<rparr>) = 4096
   \<and> MR_setup_signal primitive_platform 2 4096 False ''int handler'' junk (startup primitive_platform)
     = Returned () ((startup primitive_platform)\<lparr>dispositions :=
           (dispositions (startup primitive_platform))(2 := Handler 4096)\<rparr>)
   \<and> 4096 \<noteq> SIG_ERR primitive_platform
   \<and> (\<exists>st2. MR_get_signal_action primitive_platform 2 ''query''
       ((startup primitive_platform)\<lparr>dispositions :=
           (dispositions (startup primitive_platform))(2 := Handler 4096)\<rparr>)
     = Returned (Handler 4096) st2)"
  using get_after_setup_returns_handler [of structured_platform 15 4096 "''term handler''" junk
          "startup structured_platform"
          "(startup structured_platform)\<lparr>dispositions :=
           (dispositions (startup structured_platform))
           (15 := Sigaction \<lparr>sa_flags = 0x10000000, sa_mask = {}, MR_SIGACTION_FIELD = 4096\<rparr>)\<rparr>"
          "''query''"]
        get_after_setup_returns_handler [of primitive_platform 2 4096 "''int handler''" junk
          "startup primitive_platform"
          "(startup primitive_platform)\<lparr>dispositions :=
           (dispositions (startup primitive_platform))(2 := Handler 4096)\<rparr>"
          "''query''"]
  by (simp add: mod_defs os_defs plat_defs)

text \<open>
  C4: with \<^verbatim>\<open>sigaction\<close>, the descriptor that \<^verbatim>\<open>MR_do_setup_signal\<close> builds, hands
  to \<^verbatim>\<open>MR_set_signal_action\<close> and leaves installed for the signal has every bit of
  \<^verbatim>\<open>SA_RESTART\<close> set when \<open>restart\<close> is true (so the restart bit is set where the
  platform defines the flag as non-zero), and no bit of it when \<open>restart\<close> is false. The
  install returns for every signal the platform accepts. So a disposition installed by
  \<^verbatim>\<open>MR_setup_signal\<close> has the restart flag, and one installed by
  \<^verbatim>\<open>MR_setup_signal_no_restart\<close> has not.
\<close>
theorem restart_flag_follows_argument:
  assumes "MR_HAVE_SIGACTION P"
  shows "(\<forall>a st'. MR_do_setup_signal_act P h ni r act st = Returned a st' \<longrightarrow>
            (\<exists>sa. a = Sigaction sa
               \<and> (r \<longrightarrow> sa_flags sa AND SA_RESTART P = SA_RESTART P)
               \<and> (r \<and> SA_RESTART P \<noteq> 0 \<longrightarrow> sa_flags sa AND SA_RESTART P \<noteq> 0)
               \<and> (\<not> r \<and> flags_disjoint P \<longrightarrow> sa_flags sa AND SA_RESTART P = 0)))
       \<and> (sigemptyset_errno P = None \<longrightarrow>
            (\<exists>sa. (r \<longrightarrow> sa_flags sa AND SA_RESTART P = SA_RESTART P)
               \<and> (r \<and> SA_RESTART P \<noteq> 0 \<longrightarrow> sa_flags sa AND SA_RESTART P \<noteq> 0)
               \<and> (\<not> r \<and> flags_disjoint P \<longrightarrow> sa_flags sa AND SA_RESTART P = 0)
               \<and> MR_do_setup_signal P sig h ni r e act st
                   = MR_set_signal_action P sig (Sigaction sa) e (st\<lparr>errno := 0\<rparr>)))
       \<and> (\<forall>st'. MR_do_setup_signal P sig h ni r e act st = Returned () st' \<longrightarrow>
            (\<exists>sa. dispositions st' sig = Sigaction sa
               \<and> (r \<longrightarrow> sa_flags sa AND SA_RESTART P = SA_RESTART P)
               \<and> (r \<and> SA_RESTART P \<noteq> 0 \<longrightarrow> sa_flags sa AND SA_RESTART P \<noteq> 0)
               \<and> (\<not> r \<and> flags_disjoint P \<longrightarrow> sa_flags sa AND SA_RESTART P = 0)))
       \<and> (sigemptyset_errno P = None \<and> valid_signal P sig
            \<and> sig \<noteq> SIGKILL P \<and> sig \<noteq> SIGSTOP P \<longrightarrow>
            (\<exists>st'. MR_do_setup_signal P sig h ni r e act st = Returned () st'))
       \<and> (\<forall>st'. MR_setup_signal P sig h ni e act st = Returned () st' \<longrightarrow>
            (\<exists>sa. dispositions st' sig = Sigaction sa
               \<and> sa_flags sa AND SA_RESTART P = SA_RESTART P))
       \<and> (\<forall>st'. MR_setup_signal_no_restart P sig h ni e act st = Returned () st' \<longrightarrow>
            (\<exists>sa. dispositions st' sig = Sigaction sa
               \<and> (flags_disjoint P \<longrightarrow> sa_flags sa AND SA_RESTART P = 0)))"
proof -
  let ?c = "ni \<and> \<not> MR_HAVE_SIGCONTEXT_STRUCT P"
  let ?sa = "\<lambda>r. \<lparr>sa_flags = (if r then SA_RESTART P else 0) OR (if ?c then SA_SIGINFO P else 0),
                 sa_mask = {}, MR_SIGACTION_FIELD = h\<rparr>"
  have props: "(r' \<longrightarrow> sa_flags (?sa r') AND SA_RESTART P = SA_RESTART P)
       \<and> (r' \<and> SA_RESTART P \<noteq> 0 \<longrightarrow> sa_flags (?sa r') AND SA_RESTART P \<noteq> 0)
       \<and> (\<not> r' \<and> flags_disjoint P \<longrightarrow> sa_flags (?sa r') AND SA_RESTART P = 0)" for r'
    using built_flags_restart [of r' "SA_RESTART P" ?c "SA_SIGINFO P"]
    by (simp add: flags_disjoint_def)
  have installed: "dispositions st' sig = Sigaction (?sa r')"
    if "MR_do_setup_signal P sig h ni r' e act st = Returned () st'" for r' st'
    using do_setup_returned [OF that] assms by simp
  have built: "\<exists>sa. a = Sigaction sa
               \<and> (r \<longrightarrow> sa_flags sa AND SA_RESTART P = SA_RESTART P)
               \<and> (r \<and> SA_RESTART P \<noteq> 0 \<longrightarrow> sa_flags sa AND SA_RESTART P \<noteq> 0)
               \<and> (\<not> r \<and> flags_disjoint P \<longrightarrow> sa_flags sa AND SA_RESTART P = 0)"
    if ret: "MR_do_setup_signal_act P h ni r act st = Returned a st'" for a st'
  proof (cases "sigemptyset_errno P")
    case None
    with ret assms have "a = Sigaction (?sa r)"
      by (simp add: act_structured)
    with props [of r] show ?thesis by blast
  next
    case (Some x)
    with ret assms show ?thesis by (simp add: act_fault)
  qed
  have handed: "\<exists>sa. (r \<longrightarrow> sa_flags sa AND SA_RESTART P = SA_RESTART P)
               \<and> (r \<and> SA_RESTART P \<noteq> 0 \<longrightarrow> sa_flags sa AND SA_RESTART P \<noteq> 0)
               \<and> (\<not> r \<and> flags_disjoint P \<longrightarrow> sa_flags sa AND SA_RESTART P = 0)
               \<and> MR_do_setup_signal P sig h ni r e act st
                   = MR_set_signal_action P sig (Sigaction sa) e (st\<lparr>errno := 0\<rparr>)"
    if "sigemptyset_errno P = None"
  proof -
    have "MR_do_setup_signal P sig h ni r e act st
            = MR_set_signal_action P sig (Sigaction (?sa r)) e (st\<lparr>errno := 0\<rparr>)"
      using assms that by (simp add: do_setup_structured)
    with props [of r] show ?thesis by blast
  qed
  have stored: "\<exists>sa. dispositions st' sig = Sigaction sa
               \<and> (r \<longrightarrow> sa_flags sa AND SA_RESTART P = SA_RESTART P)
               \<and> (r \<and> SA_RESTART P \<noteq> 0 \<longrightarrow> sa_flags sa AND SA_RESTART P \<noteq> 0)
               \<and> (\<not> r \<and> flags_disjoint P \<longrightarrow> sa_flags sa AND SA_RESTART P = 0)"
    if "MR_do_setup_signal P sig h ni r e act st = Returned () st'" for st'
    using installed [OF that] props [of r] by blast
  have returns: "\<exists>st'. MR_do_setup_signal P sig h ni r e act st = Returned () st'"
    if "sigemptyset_errno P = None" "valid_signal P sig" "sig \<noteq> SIGKILL P" "sig \<noteq> SIGSTOP P"
    using assms that by (simp add: do_setup_structured set_structured)
  have with_restart: "\<exists>sa. dispositions st' sig = Sigaction sa
               \<and> sa_flags sa AND SA_RESTART P = SA_RESTART P"
    if "MR_setup_signal P sig h ni e act st = Returned () st'" for st'
  proof -
    from that have "MR_do_setup_signal P sig h ni True e act st = Returned () st'"
      by (simp add: MR_setup_signal_def)
    from installed [OF this] props [of True] show ?thesis by blast
  qed
  have without_restart: "\<exists>sa. dispositions st' sig = Sigaction sa
               \<and> (flags_disjoint P \<longrightarrow> sa_flags sa AND SA_RESTART P = 0)"
    if "MR_setup_signal_no_restart P sig h ni e act st = Returned () st'" for st'
  proof -
    from that have "MR_do_setup_signal P sig h ni False e act st = Returned () st'"
      by (simp add: MR_setup_signal_no_restart_def)
    from installed [OF this] props [of False] show ?thesis by blast
  qed
  from built handed stored returns with_restart without_restart show ?thesis
    by blast
qed

theorem restart_flag_follows_argument_witness:
  "MR_HAVE_SIGACTION structured_platform \<and> flags_disjoint structured_platform
   \<and> SA_RESTART structured_platform \<noteq> 0
   \<and> sigemptyset_errno structured_platform = None \<and> valid_signal structured_platform 15
   \<and> 15 \<noteq> SIGKILL structured_platform \<and> 15 \<noteq> SIGSTOP structured_platform
   \<and> MR_do_setup_signal_act structured_platform 4096 True True junk (startup structured_platform)
       = Returned (Sigaction \<lparr>sa_flags = 0x10000004, sa_mask = {}, MR_SIGACTION_FIELD = 4096\<rparr>)
                  (startup structured_platform)
   \<and> MR_do_setup_signal structured_platform 15 4096 True True ''term handler'' junk
         (startup structured_platform)
       = Returned () ((startup structured_platform)\<lparr>dispositions :=
           (dispositions (startup structured_platform))
           (15 := Sigaction \<lparr>sa_flags = 0x10000004, sa_mask = {}, MR_SIGACTION_FIELD = 4096\<rparr>)\<rparr>)
   \<and> MR_setup_signal structured_platform 15 4096 True ''term handler'' junk
         (startup structured_platform)
       = Returned () ((startup structured_platform)\<lparr>dispositions :=
           (dispositions (startup structured_platform))
           (15 := Sigaction \<lparr>sa_flags = 0x10000004, sa_mask = {}, MR_SIGACTION_FIELD = 4096\<rparr>)\<rparr>)
   \<and> (0x10000004 :: 32 word) AND SA_RESTART structured_platform = SA_RESTART structured_platform
   \<and> MR_do_setup_signal structured_platform 15 4096 True False ''term handler'' junk
         (startup structured_platform)
       = Returned () ((startup structured_platform)\<lparr>dispositions :=
           (dispositions (startup structured_platform))
           (15 := Sigaction \<lparr>sa_flags = 4, sa_mask = {}, MR_SIGACTION_FIELD = 4096\<rparr>)\<rparr>)
   \<and> MR_setup_signal_no_restart structured_platform 15 4096 True ''term handler'' junk
         (startup structured_platform)
       = Returned () ((startup structured_platform)\<lparr>dispositions :=
           (dispositions (startup structured_platform))
           (15 := Sigaction \<lparr>sa_flags = 4, sa_mask = {}, MR_SIGACTION_FIELD = 4096\<rparr>)\<rparr>)
   \<and> (4 :: 32 word) AND SA_RESTART structured_platform = 0"
proof -
  let ?P = structured_platform
  let ?on = "(startup ?P)\<lparr>dispositions := (dispositions (startup ?P))
           (15 := Sigaction \<lparr>sa_flags = 0x10000004, sa_mask = {}, MR_SIGACTION_FIELD = 4096\<rparr>)\<rparr>"
  let ?off = "(startup ?P)\<lparr>dispositions := (dispositions (startup ?P))
           (15 := Sigaction \<lparr>sa_flags = 4, sa_mask = {}, MR_SIGACTION_FIELD = 4096\<rparr>)\<rparr>"
  note on = restart_flag_follows_argument [of ?P 4096 True True junk "startup ?P" 15
              "''term handler''"]
  note off = restart_flag_follows_argument [of ?P 4096 True False junk "startup ?P" 15
              "''term handler''"]
  have p: "MR_HAVE_SIGACTION ?P" "flags_disjoint ?P" "SA_RESTART ?P \<noteq> 0"
    "sigemptyset_errno ?P = None" "valid_signal ?P 15" "15 \<noteq> SIGKILL ?P" "15 \<noteq> SIGSTOP ?P"
    by (simp_all add: plat_defs flags_disjoint_def valid_signal_def)
  have b: "MR_do_setup_signal_act ?P 4096 True True junk (startup ?P)
       = Returned (Sigaction \<lparr>sa_flags = 0x10000004, sa_mask = {}, MR_SIGACTION_FIELD = 4096\<rparr>)
                  (startup ?P)"
    by (simp add: mod_defs os_defs plat_defs)
  have e1: "MR_do_setup_signal ?P 15 4096 True True ''term handler'' junk (startup ?P)
       = Returned () ?on"
    by (simp add: mod_defs os_defs plat_defs)
  have e2: "MR_setup_signal ?P 15 4096 True ''term handler'' junk (startup ?P) = Returned () ?on"
    by (simp add: mod_defs os_defs plat_defs)
  have e3: "MR_do_setup_signal ?P 15 4096 True False ''term handler'' junk (startup ?P)
       = Returned () ?off"
    by (simp add: mod_defs os_defs plat_defs)
  have e4: "MR_setup_signal_no_restart ?P 15 4096 True ''term handler'' junk (startup ?P)
       = Returned () ?off"
    by (simp add: mod_defs os_defs plat_defs)
  from on [OF p(1)] e2 obtain sa where
    "dispositions ?on 15 = Sigaction sa" and "sa_flags sa AND SA_RESTART ?P = SA_RESTART ?P"
    by blast
  then have f1: "(0x10000004 :: 32 word) AND SA_RESTART ?P = SA_RESTART ?P"
    by auto
  from off [OF p(1)] e4 p(2) obtain sb where
    "dispositions ?off 15 = Sigaction sb" and "sa_flags sb AND SA_RESTART ?P = 0"
    by blast
  then have f2: "(4 :: 32 word) AND SA_RESTART ?P = 0"
    by auto
  from p b e1 e2 f1 e3 e4 f2 show ?thesis
    by blast
qed




text \<open>
  C6: with \<^verbatim>\<open>sigaction\<close>, when \<^verbatim>\<open>sigemptyset\<close> succeeds the descriptor that
  \<^verbatim>\<open>MR_do_setup_signal\<close> hands to \<^verbatim>\<open>MR_set_signal_action\<close> has the empty blocked
  mask, whatever the local variable held on entry, and so has the installed disposition;
  when \<^verbatim>\<open>sigemptyset\<close> fails the process exits with status 1 and every disposition is
  as it was.
\<close>
theorem mask_is_cleared_before_set:
  assumes "MR_HAVE_SIGACTION P"
  shows "(sigemptyset_errno P = None \<longrightarrow>
            (\<exists>sa. sa_mask sa = {}
               \<and> MR_do_setup_signal_act P h ni r act st = Returned (Sigaction sa) (st\<lparr>errno := 0\<rparr>)
               \<and> MR_do_setup_signal P sig h ni r e act st
                   = MR_set_signal_action P sig (Sigaction sa) e (st\<lparr>errno := 0\<rparr>)))
       \<and> (\<forall>st'. MR_do_setup_signal P sig h ni r e act st = Returned () st' \<longrightarrow>
            (\<exists>sa. dispositions st' sig = Sigaction sa \<and> sa_mask sa = {}))
       \<and> (sigemptyset_errno P \<noteq> None \<longrightarrow>
            (\<exists>st'. MR_do_setup_signal P sig h ni r e act st = Exit 1 st'
                  \<and> dispositions st' = dispositions st))"
proof (cases "sigemptyset_errno P")
  case None
  with assms show ?thesis
    by (auto simp add: act_structured do_setup_structured set_structured split: if_splits)
next
  case (Some x)
  with assms show ?thesis
    by (simp add: do_setup_fault)
qed

theorem mask_is_cleared_before_set_witness:
  "MR_HAVE_SIGACTION structured_platform \<and> sigemptyset_errno structured_platform = None
   \<and> MR_do_setup_signal structured_platform 11 4096 True True ''segv'' junk (startup structured_platform)
       = Returned () ((startup structured_platform)\<lparr>dispositions :=
           (dispositions (startup structured_platform))
           (11 := Sigaction \<lparr>sa_flags = 0x10000004, sa_mask = {}, MR_SIGACTION_FIELD = 4096\<rparr>)\<rparr>)
   \<and> MR_HAVE_SIGACTION faulty_platform \<and> sigemptyset_errno faulty_platform \<noteq> None
   \<and> MR_do_setup_signal faulty_platform 11 4096 True True ''segv'' junk (startup faulty_platform)
       = Exit 1 ((startup faulty_platform)\<lparr>errno := 22,
                   stderr := [Diagnostic ''cannot set clear signal mask'' 22]\<rparr>)"
  using mask_is_cleared_before_set [of structured_platform 4096 True True junk
          "startup structured_platform" 11 "''segv''"]
        mask_is_cleared_before_set [of faulty_platform 4096 True True junk
          "startup faulty_platform" 11 "''segv''"]
  by (simp add: mod_defs os_defs plat_defs)

text \<open>
  C7: \<^verbatim>\<open>MR_setup_signal_no_restart\<close> with extended context requested is
  \<^verbatim>\<open>MR_do_setup_signal\<close> with extended context requested and restart off: the same
  descriptor is built, and the outcome (return or exit, and the state left behind) is the
  same.
\<close>

theorem no_restart_is_do_setup_without_restart:
  "MR_setup_signal_no_restart P s h True e act st
     = MR_do_setup_signal P s h True False e act st
   \<and> MR_setup_signal_no_restart P s h True e act st
     = (case MR_do_setup_signal_act P h True False act st of
          Exit c st' \<Rightarrow> Exit c st'
        | Returned a st' \<Rightarrow> MR_set_signal_action P s a e st')"
  by (simp add: MR_setup_signal_no_restart_def MR_do_setup_signal_def)

text \<open>
  C8: when \<^verbatim>\<open>MR_do_setup_signal\<close> has returned, a second call with the same arguments
  (whatever its uninitialised local holds) leaves every disposition, that of \<open>s\<close>
  included, as the first call left it; and the second call returns, with \<^verbatim>\<open>sigaction\<close>
  always and with \<^verbatim>\<open>signal\<close> when the handler is not the sentinel \<^verbatim>\<open>SIG_ERR\<close>.
\<close>
theorem setup_twice_is_setup_once:
  assumes "MR_do_setup_signal P s h ni r e act st = Returned () st1"
  shows "dispositions (state_of (MR_do_setup_signal P s h ni r e act' st1)) = dispositions st1
       \<and> (MR_HAVE_SIGACTION P \<or> h \<noteq> SIG_ERR P \<longrightarrow>
            (\<exists>st2. MR_do_setup_signal P s h ni r e act' st1 = Returned () st2))"
proof -
  note facts = do_setup_returned [OF assms]
  show ?thesis
  proof (cases "MR_HAVE_SIGACTION P")
    case True
    with facts have "MR_do_setup_signal P s h ni r e act' st1
        = Returned () (st1\<lparr>errno := 0, dispositions := (dispositions st1)(s := dispositions st1 s)\<rparr>)"
      by (simp add: do_setup_structured set_structured)
    then show ?thesis by simp
  next
    case False
    with facts have "MR_do_setup_signal P s h ni r e act' st1
        = (if h = SIG_ERR P
           then Exit 1 (st1\<lparr>dispositions := (dispositions st1)(s := dispositions st1 s),
                             stderr := stderr st1 @ [Diagnostic e (errno st1)]\<rparr>)
           else Returned () (st1\<lparr>dispositions := (dispositions st1)(s := dispositions st1 s)\<rparr>))"
      by (simp add: do_setup_primitive set_primitive)
    with False show ?thesis by simp
  qed
qed

theorem setup_twice_is_setup_once_witness:
  "MR_do_setup_signal structured_platform 15 4096 True True ''term handler'' junk
       (startup structured_platform)
     = Returned () ((startup structured_platform)\<lparr>dispositions :=
           (dispositions (startup structured_platform))
           (15 := Sigaction \<lparr>sa_flags = 0x10000004, sa_mask = {}, MR_SIGACTION_FIELD = 4096\<rparr>)\<rparr>)
   \<and> MR_HAVE_SIGACTION structured_platform
   \<and> MR_do_setup_signal structured_platform 15 4096 True True ''term handler''
       \<lparr>sa_flags = 0, sa_mask = {1}, MR_SIGACTION_FIELD = 7\<rparr>
       ((startup structured_platform)\<lparr>dispositions :=
           (dispositions (startup structured_platform))
           (15 := Sigaction \<lparr>sa_flags = 0x10000004, sa_mask = {}, MR_SIGACTION_FIELD = 4096\<rparr>)\<rparr>)
     = Returned () ((startup structured_platform)\<lparr>dispositions :=
           (dispositions (startup structured_platform))
           (15 := Sigaction \<lparr>sa_flags = 0x10000004, sa_mask = {}, MR_SIGACTION_FIELD = 4096\<rparr>)\<rparr>)
   \<and> MR_do_setup_signal primitive_platform 2 4096 True True ''int handler'' junk
       (startup primitive_platform)
     = Returned () ((startup primitive_platform)\<lparr>dispositions :=
           (dispositions (startup primitive_platform))(2 := Handler 4096)\<rparr>)
   \<and> 4096 \<noteq> SIG_ERR primitive_platform
   \<and> MR_do_setup_signal primitive_platform 2 4096 True True ''int handler'' junk
       ((startup primitive_platform)\<lparr>dispositions :=
           (dispositions (startup primitive_platform))(2 := Handler 4096)\<rparr>)
     = Returned () ((startup primitive_platform)\<lparr>dispositions :=
           (dispositions (startup primitive_platform))(2 := Handler 4096)\<rparr>)"
  using setup_twice_is_setup_once [of structured_platform 15 4096 True True "''term handler''" junk
          "startup structured_platform"
          "(startup structured_platform)\<lparr>dispositions :=
           (dispositions (startup structured_platform))
           (15 := Sigaction \<lparr>sa_flags = 0x10000004, sa_mask = {}, MR_SIGACTION_FIELD = 4096\<rparr>)\<rparr>"
          "\<lparr>sa_flags = 0, sa_mask = {1}, MR_SIGACTION_FIELD = 7\<rparr>"]
        setup_twice_is_setup_once [of primitive_platform 2 4096 True True "''int handler''" junk
          "startup primitive_platform"
          "(startup primitive_platform)\<lparr>dispositions :=
           (dispositions (startup primitive_platform))(2 := Handler 4096)\<rparr>"
          junk]
  by (simp add: mod_defs os_defs plat_defs)

text \<open>
  C9: without \<^verbatim>\<open>sigaction\<close>, the descriptor that \<^verbatim>\<open>MR_do_setup_signal\<close> hands to
  \<^verbatim>\<open>MR_set_signal_action\<close> is the handler and nothing else; \<open>need_info\<close> and
  \<open>restart\<close> (and the uninitialised local) do not change the outcome.
\<close>
theorem primitive_descriptor_is_the_handler:
  assumes "\<not> MR_HAVE_SIGACTION P"
  shows "MR_do_setup_signal_act P h ni r act st = Returned (Handler h) st
       \<and> MR_do_setup_signal P sig h ni r e act st = MR_set_signal_action P sig (Handler h) e st
       \<and> MR_do_setup_signal P sig h ni r e act st = MR_do_setup_signal P sig h ni' r' e act' st"
  using assms by (simp add: do_setup_primitive act_primitive)

theorem primitive_descriptor_is_the_handler_witness:
  "\<not> MR_HAVE_SIGACTION primitive_platform
   \<and> MR_do_setup_signal_act primitive_platform 4096 True True junk (startup primitive_platform)
       = Returned (Handler 4096) (startup primitive_platform)
   \<and> MR_do_setup_signal primitive_platform 2 4096 True True ''int handler'' junk
         (startup primitive_platform)
       = Returned () ((startup primitive_platform)\<lparr>dispositions :=
           (dispositions (startup primitive_platform))(2 := Handler 4096)\<rparr>)
   \<and> MR_do_setup_signal primitive_platform 2 4096 False False ''int handler'' junk
         (startup primitive_platform)
       = Returned () ((startup primitive_platform)\<lparr>dispositions :=
           (dispositions (startup primitive_platform))(2 := Handler 4096)\<rparr>)"
  using primitive_descriptor_is_the_handler [of primitive_platform 4096 True True junk
          "startup primitive_platform" 2 "''int handler''" False False junk]
  by (simp add: mod_defs os_defs plat_defs)

text \<open>
  C10: whenever \<^verbatim>\<open>MR_do_setup_signal\<close>, its two wrappers, \<^verbatim>\<open>MR_get_signal_action\<close>
  or \<^verbatim>\<open>MR_set_signal_action\<close> ends the process, the exit status is 1; and each fatal
  path is taken: a failing \<^verbatim>\<open>sigemptyset\<close>, a query for an invalid signal, and an
  installation for an invalid or uncatchable signal all end the process with status 1,
  on either facility.
\<close>
theorem fatal_paths_exit_with_status_1:
  "(\<forall>c st'. MR_do_setup_signal P sig h ni r e act st = Exit c st' \<longrightarrow> c = 1)
   \<and> (\<forall>c st'. MR_setup_signal P sig h ni e act st = Exit c st' \<longrightarrow> c = 1)
   \<and> (\<forall>c st'. MR_setup_signal_no_restart P sig h ni e act st = Exit c st' \<longrightarrow> c = 1)
   \<and> (\<forall>c st'. MR_get_signal_action P sig e st = Exit c st' \<longrightarrow> c = 1)
   \<and> (\<forall>c st'. MR_set_signal_action P sig a e st = Exit c st' \<longrightarrow> c = 1)
   \<and> (MR_HAVE_SIGACTION P \<and> sigemptyset_errno P \<noteq> None \<longrightarrow>
        (\<exists>st'. MR_do_setup_signal P sig h ni r e act st = Exit 1 st'))
   \<and> (\<not> valid_signal P sig \<longrightarrow> (\<exists>st'. MR_get_signal_action P sig e st = Exit 1 st'))
   \<and> (\<not> valid_signal P sig \<or> sig = SIGKILL P \<or> sig = SIGSTOP P \<longrightarrow>
        (\<exists>st'. MR_set_signal_action P sig a e st = Exit 1 st'))"
proof -
  have fault: "MR_HAVE_SIGACTION P \<and> sigemptyset_errno P \<noteq> None \<longrightarrow>
        (\<exists>st'. MR_do_setup_signal P sig h ni r e act st = Exit 1 st')"
    by (auto simp add: do_setup_fault)
  have query: "\<not> valid_signal P sig \<longrightarrow> (\<exists>st'. MR_get_signal_action P sig e st = Exit 1 st')"
    by (cases "MR_HAVE_SIGACTION P") (simp_all add: get_structured get_primitive)
  have inst: "\<not> valid_signal P sig \<or> sig = SIGKILL P \<or> sig = SIGSTOP P \<longrightarrow>
        (\<exists>st'. MR_set_signal_action P sig a e st = Exit 1 st')"
    by (cases "MR_HAVE_SIGACTION P") (auto simp add: set_structured set_primitive)
  have s1: "\<forall>c st'. MR_do_setup_signal P sig h ni r e act st = Exit c st' \<longrightarrow> c = 1"
    using do_setup_exit by blast
  have s2: "\<forall>c st'. MR_setup_signal P sig h ni e act st = Exit c st' \<longrightarrow> c = 1"
    unfolding MR_setup_signal_def using do_setup_exit by blast
  have s3: "\<forall>c st'. MR_setup_signal_no_restart P sig h ni e act st = Exit c st' \<longrightarrow> c = 1"
    unfolding MR_setup_signal_no_restart_def using do_setup_exit by blast
  have s4: "\<forall>c st'. MR_get_signal_action P sig e st = Exit c st' \<longrightarrow> c = 1"
    using get_exit by blast
  have s5: "\<forall>c st'. MR_set_signal_action P sig a e st = Exit c st' \<longrightarrow> c = 1"
    using set_exit by blast
  from s1 s2 s3 s4 s5 fault query inst show ?thesis
    by blast
qed

theorem fatal_paths_exit_with_status_1_witness:
  "(MR_HAVE_SIGACTION faulty_platform \<and> sigemptyset_errno faulty_platform \<noteq> None)
   \<and> MR_do_setup_signal faulty_platform 11 4096 True True ''segv'' junk (startup faulty_platform)
       = Exit 1 ((startup faulty_platform)\<lparr>errno := 22,
                   stderr := [Diagnostic ''cannot set clear signal mask'' 22]\<rparr>)
   \<and> \<not> valid_signal structured_platform 0
   \<and> MR_get_signal_action structured_platform 0 ''bad signal'' (startup structured_platform)
       = Exit 1 ((startup structured_platform)\<lparr>errno := 22,
                   stderr := [Diagnostic ''bad signal'' 22]\<rparr>)
   \<and> (\<exists>st'. MR_set_signal_action structured_platform 0 (Sigaction junk) ''bad signal''
               (startup structured_platform) = Exit 1 st')
   \<and> \<not> valid_signal primitive_platform 65
   \<and> MR_get_signal_action primitive_platform 65 ''bad signal'' (startup primitive_platform)
       = Exit 1 ((startup primitive_platform)\<lparr>errno := 22,
                   stderr := [Diagnostic ''bad signal'' 22]\<rparr>)
   \<and> (\<exists>st'. MR_set_signal_action primitive_platform 65 (Handler 4096) ''bad signal''
               (startup primitive_platform) = Exit 1 st')"
proof -
  note faulty = fatal_paths_exit_with_status_1 [of faulty_platform 11 4096 True True "''segv''"
          junk "startup faulty_platform" "Sigaction junk"]
  note structured = fatal_paths_exit_with_status_1 [of structured_platform 0 4096 True True
          "''bad signal''" junk "startup structured_platform" "Sigaction junk"]
  note primitive = fatal_paths_exit_with_status_1 [of primitive_platform 65 4096 True True
          "''bad signal''" junk "startup primitive_platform" "Handler 4096"]
  have h1: "MR_HAVE_SIGACTION faulty_platform \<and> sigemptyset_errno faulty_platform \<noteq> None"
    by (simp add: plat_defs)
  have h2: "\<not> valid_signal structured_platform 0"
    by (simp add: valid_signal_def)
  have h3: "\<not> valid_signal primitive_platform 65"
    by (simp add: valid_signal_def plat_defs)
  from faulty h1 obtain st1 where
    "MR_do_setup_signal faulty_platform 11 4096 True True ''segv'' junk (startup faulty_platform)
       = Exit 1 st1"
    by blast
  moreover have "state_of (MR_do_setup_signal faulty_platform 11 4096 True True ''segv'' junk
       (startup faulty_platform))
       = (startup faulty_platform)\<lparr>errno := 22,
                   stderr := [Diagnostic ''cannot set clear signal mask'' 22]\<rparr>"
    by (simp add: mod_defs os_defs plat_defs)
  ultimately have c1:
    "MR_do_setup_signal faulty_platform 11 4096 True True ''segv'' junk (startup faulty_platform)
       = Exit 1 ((startup faulty_platform)\<lparr>errno := 22,
                   stderr := [Diagnostic ''cannot set clear signal mask'' 22]\<rparr>)"
    by simp
  from structured h2 obtain st2 where
    "MR_get_signal_action structured_platform 0 ''bad signal'' (startup structured_platform)
       = Exit 1 st2"
    by blast
  moreover have "state_of (MR_get_signal_action structured_platform 0 ''bad signal''
       (startup structured_platform))
       = (startup structured_platform)\<lparr>errno := 22, stderr := [Diagnostic ''bad signal'' 22]\<rparr>"
    by (simp add: mod_defs os_defs plat_defs)
  ultimately have c2:
    "MR_get_signal_action structured_platform 0 ''bad signal'' (startup structured_platform)
       = Exit 1 ((startup structured_platform)\<lparr>errno := 22,
                   stderr := [Diagnostic ''bad signal'' 22]\<rparr>)"
    by simp
  from structured h2 have c3:
    "\<exists>st'. MR_set_signal_action structured_platform 0 (Sigaction junk) ''bad signal''
               (startup structured_platform) = Exit 1 st'"
    by blast
  from primitive h3 obtain st4 where
    "MR_get_signal_action primitive_platform 65 ''bad signal'' (startup primitive_platform)
       = Exit 1 st4"
    by blast
  moreover have "state_of (MR_get_signal_action primitive_platform 65 ''bad signal''
       (startup primitive_platform))
       = (startup primitive_platform)\<lparr>errno := 22, stderr := [Diagnostic ''bad signal'' 22]\<rparr>"
    by (simp add: mod_defs os_defs plat_defs)
  ultimately have c4:
    "MR_get_signal_action primitive_platform 65 ''bad signal'' (startup primitive_platform)
       = Exit 1 ((startup primitive_platform)\<lparr>errno := 22,
                   stderr := [Diagnostic ''bad signal'' 22]\<rparr>)"
    by simp
  from primitive h3 have c5:
    "\<exists>st'. MR_set_signal_action primitive_platform 65 (Handler 4096) ''bad signal''
               (startup primitive_platform) = Exit 1 st'"
    by blast
  from h1 c1 h2 c2 c3 h3 c4 c5 show ?thesis
    by blast
qed

end
